theory Spec2Isabelle
  imports Complex_Main
begin

section \<open>The SaGe SPARQL interface: data model\<close>

text \<open>
  The two source files are the HTTP interface \<^verbatim>\<open>sage/http_server/sparql_interface.py\<close>
  and the generated gRPC stub \<^verbatim>\<open>sage/grpc/service_pb2_grpc.py\<close>. Everything the
  interface calls (the engine, the parser, the plan loader, the encoders, the dataset and
  its saved-plan store) lives elsewhere; the calls are parameters of the model, gathered
  in the record \<open>env\<close>, and each call that computes on request or backend data
  returns either an exception or a value.
\<close>

subsection \<open>Exceptions and outcomes\<close>

datatype exn =
    UnsupportedSPARQL string
  | InvalidContinuation
  | NotImplementedError string
  | KeyError string
  | HTTPException nat
  | Exception string

text \<open>\<open>str(err)\<close> of the interface's \<^verbatim>\<open>sage_http_error(str(err))\<close>.\<close>

fun str :: "exn \<Rightarrow> string" where
  "str (UnsupportedSPARQL m) = m"
| "str InvalidContinuation = ''InvalidContinuation''"
| "str (NotImplementedError m) = m"
| "str (KeyError k) = k"
| "str (HTTPException n) = ''HTTPException''"
| "str (Exception m) = m"

subsection \<open>Graphs and the dataset registry\<close>

record graph =
  gname :: string
  quota :: int
  max_results :: int

text \<open>
  Modelled from the spec: the dataset registry is not part of the sources; it is a
  read-only mapping from graph names to graph handles together with the
  stateless-versus-stateful mode flag. \<^verbatim>\<open>has_graph(n)\<close> is \<open>graphs ds n \<noteq> None\<close> and
  \<^verbatim>\<open>get_graph(n)\<close> is the lookup (Python's \<^verbatim>\<open>None\<close> when the name is not registered).
\<close>

record dataset =
  is_stateless :: bool
  graphs :: "string \<rightharpoonup> graph"

subsection \<open>Responses\<close>

record stats =
  cardinalities :: "(string \<times> int) list"
  import_ms :: rat
  export_ms :: rat

text \<open>
  The bodies the interface asks the encoders of \<^verbatim>\<open>sage.http_server.responses\<close> and the
  template engine for, one constructor for each call with the arguments of that call.
\<close>

datatype 'b body =
    W3cJsonStreaming 'b "string option" stats string
  | W3cXml 'b "string option" stats
  | RawJsonStreaming 'b "string option" stats string
  | SagePage "string option" "string option" 'b "string option" stats

fun body_next :: "'b body \<Rightarrow> string option" where
  "body_next (W3cJsonStreaming b n s u) = n"
| "body_next (W3cXml b n s) = n"
| "body_next (RawJsonStreaming b n s u) = n"
| "body_next (SagePage q d b n s) = n"

fun body_stats :: "'b body \<Rightarrow> stats" where
  "body_stats (W3cJsonStreaming b n s u) = s"
| "body_stats (W3cXml b n s) = s"
| "body_stats (RawJsonStreaming b n s u) = s"
| "body_stats (SagePage q d b n s) = s"

text \<open>
  \<open>SageHttpError t\<close> is \<^verbatim>\<open>sage_http_error(t)\<close>, the error response of the server with
  the text \<open>t\<close> in its body; \<open>Response b c hs\<close> is \<^verbatim>\<open>Response(b, content_type=c)\<close> with
  the headers \<open>hs\<close> added afterwards; \<open>RenderTemplate b\<close> is the rendered HTML page;
  \<open>Response400 es\<close> is \<^verbatim>\<open>Response(format_marshmallow_errors(es), status=400)\<close>.
\<close>

datatype 'b response =
    SageHttpError string
  | Response "'b body" string "(string \<times> string) list"
  | RenderTemplate "'b body"
  | Response400 "string list"
  | DatasetPage string

fun response_next :: "'b response \<Rightarrow> string option" where
  "response_next (Response b c hs) = body_next b"
| "response_next (RenderTemplate b) = body_next b"
| "response_next (SageHttpError t) = None"
| "response_next (Response400 es) = None"
| "response_next (DatasetPage t) = None"

datatype 'b outcome = Return "'b response" | Raise exn

subsection \<open>Effects\<close>

text \<open>
  The calls with an effect outside the request are recorded in order: the two
  transaction operations on a graph (named by the graph), the call of the engine with
  its three arguments, and the writes to the saved-plan store.
\<close>

datatype 'p event =
    Commit string
  | Abort string
  | Execute 'p rat int
  | SavePlan string string
  | DeletePlan string

text \<open>
  The world a request runs in: the saved-plan store of the dataset (ids to encoded
  plans) and the effects of the request so far.
\<close>

record 'p world =
  store :: "string \<rightharpoonup> string"
  effects :: "'p event list"

definition emit :: "'p event \<Rightarrow> 'p world \<Rightarrow> 'p world" where
  "emit e w = w\<lparr>effects := effects w @ [e]\<rparr>"

text \<open>
  Modelled from the spec: the graph backend is not part of the sources; it exposes
  \<^verbatim>\<open>commit()\<close> and \<^verbatim>\<open>abort()\<close>, which end the transaction of the execution and return
  nothing.
\<close>

definition graph_commit :: "graph \<Rightarrow> 'p world \<Rightarrow> 'p world" where
  "graph_commit g w = emit (Commit (gname g)) w"

definition graph_abort :: "graph \<Rightarrow> 'p world \<Rightarrow> 'p world" where
  "graph_abort g w = emit (Abort (gname g)) w"

text \<open>
  Modelled from the spec: the saved-plan store (\<^verbatim>\<open>dataset.statefull_manager\<close>) is not
  part of the sources. Its contract is \<^verbatim>\<open>save(id, token)\<close>, which replaces what the id
  held, \<^verbatim>\<open>get(id)\<close>, a token or a miss, and \<^verbatim>\<open>delete(id)\<close>; a continuation that
  references a missing saved plan is the error \<open>InvalidContinuation\<close>.
\<close>

definition get_plan :: "(string \<rightharpoonup> string) \<Rightarrow> string \<Rightarrow> exn + string" where
  "get_plan m plan_id = (case m plan_id of None \<Rightarrow> Inl InvalidContinuation | Some t \<Rightarrow> Inr t)"

definition save_plan :: "string \<Rightarrow> string \<Rightarrow> 'p world \<Rightarrow> 'p world" where
  "save_plan plan_id token w = emit (SavePlan plan_id token) (w\<lparr>store := (store w)(plan_id \<mapsto> token)\<rparr>)"

definition delete_plan :: "string \<Rightarrow> 'p world \<Rightarrow> 'p world" where
  "delete_plan plan_id w = emit (DeletePlan plan_id) (w\<lparr>store := (store w)(plan_id := None)\<rparr>)"

subsection \<open>The calls into the rest of the server\<close>

text \<open>
  \<open>'p\<close> is a physical plan, \<open>'s\<close> a saved plan (what the engine hands back on
  suspension and what \<^verbatim>\<open>decode_saved_plan\<close> returns), \<open>'b\<close> the bindings. A Python
  dictionary read from JSON maps a key to a value that may be \<^verbatim>\<open>None\<close>.
  \<open>responses env b\<close> is what the encoder or template call for the body \<open>b\<close> raises,
  if anything; \<open>time env k\<close> is the reading of the \<open>k\<close>-th call of \<^verbatim>\<open>time()\<close> in the
  request; \<open>uuid4 env\<close> is \<^verbatim>\<open>str(uuid4())\<close>.
\<close>

type_synonym pydict = "string \<rightharpoonup> string option"

record ('p, 's, 'b) env =
  format_graph_uri :: "string option \<Rightarrow> string \<Rightarrow> exn + string"
  secure_url :: "string \<Rightarrow> exn + string"
  decode_saved_plan :: "string \<Rightarrow> exn + 's"
  load :: "'s \<Rightarrow> dataset \<Rightarrow> exn + 'p"
  parse_query :: "string option \<Rightarrow> dataset \<Rightarrow> string \<Rightarrow> string \<Rightarrow> exn + 'p \<times> (string \<times> int) list"
  build_query_plan :: "string option \<Rightarrow> dataset \<Rightarrow> string \<Rightarrow> string option \<Rightarrow> exn + 'p \<times> (string \<times> int) list"
  engine_execute :: "'p \<Rightarrow> rat \<Rightarrow> int \<Rightarrow> exn + 'b \<times> 's option \<times> bool \<times> string option"
  encode_saved_plan :: "'s option \<Rightarrow> exn + string"
  uuid4 :: string
  time :: "nat \<Rightarrow> rat"
  responses :: "'b body \<Rightarrow> exn option"
  SageSparqlQuery_load :: "pydict \<Rightarrow> exn + pydict \<times> string list option"
  QueryRequest_load :: "pydict \<Rightarrow> exn + pydict \<times> string list option"
  dataset_homepage :: "graph \<Rightarrow> string \<Rightarrow> exn + string"

record request =
  http_method :: string
  is_json :: bool
  args :: "string \<rightharpoonup> string"
  get_json :: pydict
  req_base_url :: string
  req_url :: string
  best_match :: "string list \<Rightarrow> string option"

subsection \<open>Exceptions inside a request\<close>

text \<open>A call that may raise, followed by the rest of the block.\<close>

definition attempt :: "exn + 'a \<Rightarrow> 'p world \<Rightarrow> ('a \<Rightarrow> 'b outcome \<times> 'p world) \<Rightarrow> 'b outcome \<times> 'p world" where
  "attempt r w k = (case r of Inl err \<Rightarrow> (Raise err, w) | Inr v \<Rightarrow> k v)"

text \<open>\<^verbatim>\<open>d[k]\<close> on a dictionary.\<close>

definition getitem :: "(string \<rightharpoonup> 'v) \<Rightarrow> string \<Rightarrow> exn + 'v" where
  "getitem d k = (case d k of None \<Rightarrow> Inl (KeyError k) | Some v \<Rightarrow> Inr v)"

text \<open>\<^verbatim>\<open>x or None\<close> on a string that may be missing.\<close>

definition or_None :: "string option \<Rightarrow> string option" where
  "or_None x = (case x of None \<Rightarrow> None | Some s \<Rightarrow> if s = [] then None else Some s)"



section \<open>The query endpoint\<close>

definition aborted_message :: "string \<Rightarrow> string" where
  "aborted_message abort_reason =
     ''The SPARQL query has been aborted for the following reason: '' @ [CHR 0x27] @ abort_reason @ [CHR 0x27]"

text \<open>
  Lines 31 to 41 of \<^verbatim>\<open>execute_query\<close>: decode the continuation or build the plan. The
  cardinalities are the empty dictionary unless the query is parsed.
\<close>

definition build_plan ::
  "('p, 's, 'b) env \<Rightarrow> string option \<Rightarrow> string option \<Rightarrow> dataset \<Rightarrow> string \<Rightarrow> string
     \<Rightarrow> (string \<rightharpoonup> string) \<Rightarrow> exn + 'p \<times> (string \<times> int) list" where
  "build_plan env query next_link ds graph_name url m =
     (case next_link of
        Some l \<Rightarrow>
          (case (if is_stateless ds then Inr l else get_plan m l) of
             Inl err \<Rightarrow> Inl err
           | Inr saved_plan \<Rightarrow>
               (case decode_saved_plan env saved_plan of
                  Inl err \<Rightarrow> Inl err
                | Inr decoded \<Rightarrow>
                    (case load env decoded ds of
                       Inl err \<Rightarrow> Inl err
                     | Inr plan \<Rightarrow> Inr (plan, []))))
      | None \<Rightarrow> parse_query env query ds graph_name url)"

text \<open>
  Lines 57 to 69: encode the saved plan when the execution is not done, storing it under
  a plan id in stateful mode, or delete the stored plan when a resumed execution is done.
  The result is \<^verbatim>\<open>next_page\<close>.
\<close>

definition save_continuation ::
  "('p, 's, 'b) env \<Rightarrow> dataset \<Rightarrow> string option \<Rightarrow> 's option \<Rightarrow> bool \<Rightarrow> string option
     \<Rightarrow> 'p world \<Rightarrow> (exn + string option) \<times> 'p world" where
  "save_continuation env ds next_link saved_plan is_done abort_reason w =
     (if \<not> is_done \<and> abort_reason = None then
        (case encode_saved_plan env saved_plan of
           Inl err \<Rightarrow> (Inl err, w)
         | Inr next_page \<Rightarrow>
             if \<not> is_stateless ds then
               (let plan_id = (case next_link of Some l \<Rightarrow> l | None \<Rightarrow> uuid4 env)
                in (Inr (Some plan_id), save_plan plan_id next_page w))
             else (Inr (Some next_page), w))
      else if is_done \<and> \<not> is_stateless ds \<and> next_link \<noteq> None then
        (Inr None, delete_plan (the next_link) w)
      else (Inr None, w))"

text \<open>One call of an encoder, wrapped into a response.\<close>

definition encode :: "('p, 's, 'b) env \<Rightarrow> 'b body \<Rightarrow> ('b body \<Rightarrow> 'b response) \<Rightarrow> exn + 'b response" where
  "encode env b k = (case responses env b of Some err \<Rightarrow> Inl err | None \<Rightarrow> Inr (k b))"

text \<open>Lines 74 to 82: the response in the format the client accepts.\<close>

definition send_response ::
  "('p, 's, 'b) env \<Rightarrow> string option \<Rightarrow> string option \<Rightarrow> string option \<Rightarrow> 'b \<Rightarrow> string option
     \<Rightarrow> stats \<Rightarrow> string \<Rightarrow> exn + 'b response" where
  "send_response env mimetype query default_graph_uri bindings next_page st url =
     (if mimetype = Some ''application/sparql-results+json'' then
        encode env (W3cJsonStreaming bindings next_page st url) (\<lambda>b. Response b ''application/json'' [])
      else if mimetype = Some ''application/xml'' \<or> mimetype = Some ''application/sparql-results+xml'' then
        encode env (W3cXml bindings next_page st) (\<lambda>b. Response b ''application/xml'' [])
      else if mimetype = Some ''application/json'' then
        encode env (RawJsonStreaming bindings next_page st url) (\<lambda>b. Response b ''application/json'' [])
      else
        encode env (SagePage query default_graph_uri bindings next_page st) RenderTemplate)"

text \<open>
  Lines 31 to 82, the part of the \<^verbatim>\<open>try\<close> block that runs once the graph is resolved.
  An exception leaves the block with the effects so far. Python's \<^verbatim>\<open>graph.quota / 1000\<close>
  is a floating-point quotient; the model keeps the exact rational.
\<close>

definition run_query ::
  "('p, 's, 'b) env \<Rightarrow> string option \<Rightarrow> string option \<Rightarrow> string option \<Rightarrow> dataset
     \<Rightarrow> string option \<Rightarrow> string \<Rightarrow> string \<Rightarrow> graph \<Rightarrow> 'p world \<Rightarrow> 'b outcome \<times> 'p world" where
  "run_query env query default_graph_uri next_link ds mimetype url graph_name graph w =
     attempt (build_plan env query next_link ds graph_name url (store w)) w (\<lambda>(plan, cards).
       let loading_time = (time env 1 - time env 0) * 1000;
           quota = of_int (quota graph) / 1000;
           max_results = max_results graph;
           w1 = emit (Execute plan quota max_results) w
       in attempt (engine_execute env plan quota max_results) w1 (\<lambda>(bindings, saved_plan, is_done, abort_reason).
         if abort_reason \<noteq> None then
           (Return (SageHttpError (aborted_message (the abort_reason))), graph_abort graph w1)
         else
           let w2 = graph_commit graph w1;
               (next_page, w3) = save_continuation env ds next_link saved_plan is_done abort_reason w2
           in attempt next_page w3 (\<lambda>next_page.
             let exportTime = (time env 3 - time env 2) * 1000;
                 st = \<lparr>cardinalities = cards, import_ms = loading_time, export_ms = exportTime\<rparr>
             in attempt (send_response env mimetype query default_graph_uri bindings next_page st url) w3
                  (\<lambda>r. (Return r, w3)))))"

text \<open>
  The \<^verbatim>\<open>except\<close> clause of \<^verbatim>\<open>execute_query\<close> once the graph is resolved: abort on the
  graph, then raise the exception again.
\<close>

definition except_abort :: "graph \<Rightarrow> 'b outcome \<times> 'p world \<Rightarrow> 'b outcome \<times> 'p world" where
  "except_abort graph r =
     (case fst r of
        Raise err \<Rightarrow> (Raise err, graph_abort graph (snd r))
      | Return x \<Rightarrow> r)"

text \<open>
  \<^verbatim>\<open>execute_query(query, default_graph_uri, next_link, dataset, mimetype, url)\<close>, run on
  the saved-plan store \<open>m\<close>. While \<^verbatim>\<open>graph\<close> is still \<^verbatim>\<open>None\<close> an exception is raised
  again with no abort.
\<close>

definition execute_query ::
  "('p, 's, 'b) env \<Rightarrow> string option \<Rightarrow> string option \<Rightarrow> string option \<Rightarrow> dataset
     \<Rightarrow> string option \<Rightarrow> string \<Rightarrow> (string \<rightharpoonup> string) \<Rightarrow> 'b outcome \<times> 'p world" where
  "execute_query env query default_graph_uri next_link ds mimetype url m =
     (let w = \<lparr>store = m, effects = []\<rparr>
      in attempt (format_graph_uri env default_graph_uri url) w (\<lambda>graph_name.
           case graphs ds graph_name of
             None \<Rightarrow> (Return (SageHttpError ''No RDF graph matching the default URI provided was found.''), w)
           | Some graph \<Rightarrow>
               except_abort graph
                 (run_query env query default_graph_uri next_link ds mimetype url graph_name graph w)))"

section \<open>The routes\<close>

definition invalid_request :: string where
  "invalid_request =
     ''Invalid request sent to server: a GET request must contains both parameters '' @ [CHR 0x27]
     @ ''query'' @ [CHR 0x27] @ '' and '' @ [CHR 0x27] @ ''default-graph-uri'' @ [CHR 0x27]
     @ ''. See <a href='' @ [CHR 0x27] @ ''http://sage.univ-nantes.fr/documentation'' @ [CHR 0x27]
     @ ''>the API documentation</a> for reference.''"

text \<open>
  The two \<^verbatim>\<open>except\<close> clauses of \<^verbatim>\<open>sparql_index\<close>: an unsupported query is answered with
  its message, any other exception with \<^verbatim>\<open>abort(500)\<close>, which raises the HTTP exception
  the framework answers with status 500.
\<close>

definition index_except :: "'b outcome \<times> 'p world \<Rightarrow> 'b outcome \<times> 'p world" where
  "index_except r =
     (case fst r of
        Raise (UnsupportedSPARQL t) \<Rightarrow> (Return (SageHttpError (str (UnsupportedSPARQL t))), snd r)
      | Raise err \<Rightarrow> (Raise (HTTPException 500), snd r)
      | Return x \<Rightarrow> r)"

text \<open>The handler of \<^verbatim>\<open>/sparql\<close>, run on the saved-plan store \<open>m\<close>.\<close>

definition sparql_index ::
  "('p, 's, 'b) env \<Rightarrow> dataset \<Rightarrow> request \<Rightarrow> (string \<rightharpoonup> string) \<Rightarrow> 'b outcome \<times> 'p world" where
  "sparql_index env ds req m =
     (let mimetype = best_match req [''application/json'', ''application/xml'',
            ''application/sparql-results+json'', ''application/sparql-results+xml'', ''text/html''];
          w = \<lparr>store = m, effects = []\<rparr>
      in index_except
        (attempt (secure_url env (req_base_url req)) w (\<lambda>url.
           if http_method req = ''GET'' then
             (let query = or_None (args req ''query'');
                  default_graph_uri = or_None (args req ''default-graph-uri'');
                  next_link = or_None (args req ''next'')
              in if (query = None \<or> default_graph_uri = None) \<and> (next_link = None \<or> default_graph_uri = None)
                 then (Return (SageHttpError invalid_request), w)
                 else execute_query env query default_graph_uri next_link ds mimetype url m)
           else if http_method req = ''POST'' \<and> is_json req then
             attempt (SageSparqlQuery_load env (get_json req)) w (\<lambda>(post_query, err).
               if err \<noteq> None \<and> 0 < length (the err) then (Return (Response400 (the err)), w)
               else
                 attempt (getitem post_query ''query'') w (\<lambda>query.
                 attempt (getitem post_query ''defaultGraph'') w (\<lambda>default_graph_uri.
                   let next_link = (case post_query ''next'' of Some v \<Rightarrow> v | None \<Rightarrow> None)
                   in execute_query env query default_graph_uri next_link ds mimetype url m)))
           else (Return (SageHttpError invalid_request), w))))"

section \<open>The deprecated route\<close>

definition deprecation_warning :: string where
  "deprecation_warning =
     ''199 SaGe/2.0 '' @ [CHR 0x22]
     @ ''You are using a deprecated API. Consider uppgrading to the SaGe SPARQL query API. See http://sage.univ-nantes.fr/documentation fore more details.''
     @ [CHR 0x22]"

text \<open>
  Lines 204 to 212 of \<^verbatim>\<open>sparql_query\<close>: the first \<^verbatim>\<open>if\<close> is not chained to the second,
  so its response is replaced by the one of the second statement.
\<close>

definition send_deprecated ::
  "('p, 's, 'b) env \<Rightarrow> string option \<Rightarrow> 'b \<Rightarrow> string option \<Rightarrow> stats \<Rightarrow> string \<Rightarrow> exn + 'b response" where
  "send_deprecated env mimetype bindings next_page st url =
     (case (if mimetype = Some ''application/sparql-results+json''
            then responses env (W3cJsonStreaming bindings next_page st url) else None) of
        Some err \<Rightarrow> Inl err
      | None \<Rightarrow>
          if mimetype = Some ''application/xml'' \<or> mimetype = Some ''application/sparql-results+xml'' then
            encode env (W3cXml bindings next_page st) (\<lambda>b. Response b ''application/xml'' [(''Warning'', deprecation_warning)])
          else
            encode env (RawJsonStreaming bindings next_page st url) (\<lambda>b. Response b ''application/json'' [(''Warning'', deprecation_warning)]))"

text \<open>
  Lines 165 to 172: when the posted query carries a \<^verbatim>\<open>next\<close> that is not \<^verbatim>\<open>None\<close>, the
  saved plan is fetched, decoded and loaded into \<^verbatim>\<open>plan\<close>. \<^verbatim>\<open>next_link\<close> is not assigned.
\<close>

definition load_next :: "('p, 's, 'b) env \<Rightarrow> dataset \<Rightarrow> pydict \<Rightarrow> (string \<rightharpoonup> string) \<Rightarrow> exn + 'p option" where
  "load_next env ds post_query m =
     (case post_query ''next'' of
        Some (Some n) \<Rightarrow>
          (case (if is_stateless ds then Inr n else get_plan m n) of
             Inl err \<Rightarrow> Inl err
           | Inr saved_plan \<Rightarrow>
               (case decode_saved_plan env saved_plan of
                  Inl err \<Rightarrow> Inl err
                | Inr decoded \<Rightarrow>
                    (case load env decoded ds of
                       Inl err \<Rightarrow> Inl err
                     | Inr plan \<Rightarrow> Inr (Some plan))))
      | _ \<Rightarrow> Inr None)"

text \<open>The \<^verbatim>\<open>try\<close> block of \<^verbatim>\<open>sparql_query\<close>, lines 145 to 212.\<close>

definition run_deprecated ::
  "('p, 's, 'b) env \<Rightarrow> dataset \<Rightarrow> string \<Rightarrow> graph \<Rightarrow> request \<Rightarrow> string option \<Rightarrow> string
     \<Rightarrow> 'p world \<Rightarrow> 'b outcome \<times> 'p world" where
  "run_deprecated env ds graph_name graph req mimetype url w =
     (if http_method req = ''GET'' \<or> \<not> is_json req then
        attempt (dataset_homepage env graph url) w (\<lambda>page. (Return (DatasetPage page), w))
      else
        attempt (QueryRequest_load env (get_json req)) w (\<lambda>(post_query, err).
          if err \<noteq> None \<and> 0 < length (the err) then (Return (Response400 (the err)), w)
          else
            let quota = of_int (quota graph) / 1000;
                max_results = max_results graph;
                next_link = None
            in attempt (load_next env ds post_query (store w)) w (\<lambda>plan.
               attempt (getitem post_query ''query'') w (\<lambda>query.
               attempt (build_query_plan env query ds graph_name next_link) w (\<lambda>(plan, cards).
                 let loading_time = (time env 1 - time env 0) * 1000;
                     w1 = emit (Execute plan quota max_results) w
                 in attempt (engine_execute env plan quota max_results) w1 (\<lambda>(bindings, saved_plan, is_done, abort_reason).
                   if abort_reason \<noteq> None then
                     (Return (SageHttpError (aborted_message (the abort_reason))), graph_abort graph w1)
                   else
                     let w2 = graph_commit graph w1;
                         (next_page, w3) = save_continuation env ds next_link saved_plan is_done abort_reason w2
                     in attempt next_page w3 (\<lambda>next_page.
                       let exportTime = (time env 3 - time env 2) * 1000;
                           st = \<lparr>cardinalities = cards, import_ms = loading_time, export_ms = exportTime\<rparr>
                       in attempt (send_deprecated env mimetype bindings next_page st url) w3
                            (\<lambda>r. (Return r, w3)))))))))"

text \<open>
  The handler of \<^verbatim>\<open>/sparql/<graph_name>\<close>. The graph lookup, the content negotiation and
  \<^verbatim>\<open>secure_url\<close> are outside the \<^verbatim>\<open>try\<close> block; its \<^verbatim>\<open>except\<close> clause aborts on the graph
  and answers with \<^verbatim>\<open>abort(500)\<close>.
\<close>

definition sparql_query ::
  "('p, 's, 'b) env \<Rightarrow> dataset \<Rightarrow> string \<Rightarrow> request \<Rightarrow> (string \<rightharpoonup> string) \<Rightarrow> 'b outcome \<times> 'p world" where
  "sparql_query env ds graph_name req m =
     (let w = \<lparr>store = m, effects = []\<rparr>
      in case graphs ds graph_name of
           None \<Rightarrow> (Raise (HTTPException 404), w)
         | Some graph \<Rightarrow>
             (let mimetype = best_match req [''application/json'', ''application/xml'',
                    ''application/sparql-results+json'', ''application/sparql-results+xml'']
              in attempt (secure_url env (req_url req)) w (\<lambda>url.
                   let r = run_deprecated env ds graph_name graph req mimetype url w
                   in case fst r of
                        Raise err \<Rightarrow> (Raise (HTTPException 500), graph_abort graph (snd r))
                      | Return x \<Rightarrow> r)))"

section \<open>The gRPC servicer\<close>

datatype status_code = OK | UNIMPLEMENTED

record grpc_context =
  code :: status_code
  details :: string

text \<open>
  \<^verbatim>\<open>SageSPARQLServicer.Query(self, request, context)\<close>: sets the code and the details on
  the context, then raises.
\<close>

definition Query :: "'r \<Rightarrow> grpc_context \<Rightarrow> (exn + 'a) \<times> grpc_context" where
  "Query request ctx =
     (let ctx1 = ctx\<lparr>code := UNIMPLEMENTED\<rparr>;
          ctx2 = ctx1\<lparr>details := ''Method not implemented!''\<rparr>
      in (Inl (NotImplementedError ''Method not implemented!''), ctx2))"

section \<open>A small server\<close>

text \<open>
  One graph \<open>g\<close> with a quota of 3000 milliseconds and at most 10 results a page. Plans,
  saved plans and tokens are strings, bindings are lists of strings. The token
  \<open>corrupt\<close> cannot be decoded. The answer of the engine and what the encoders raise are
  the two parameters of the environment.
\<close>

definition example_graph :: graph where
  "example_graph = \<lparr>gname = ''g'', quota = 3000, max_results = 10\<rparr>"

definition example_dataset :: "bool \<Rightarrow> dataset" where
  "example_dataset stateless = \<lparr>is_stateless = stateless, graphs = [''g'' \<mapsto> example_graph]\<rparr>"

definition example_env ::
  "(exn + string list \<times> string option \<times> bool \<times> string option) \<Rightarrow> exn option
     \<Rightarrow> (string, string, string list) env" where
  "example_env answer encoder_error =
     \<lparr>format_graph_uri = (\<lambda>d u. case d of None \<Rightarrow> Inl (Exception ''no graph'') | Some g \<Rightarrow> Inr g),
      secure_url = Inr,
      decode_saved_plan = (\<lambda>t. if t = ''corrupt'' then Inl (Exception ''cannot decode'') else Inr t),
      load = (\<lambda>s d. Inr s),
      parse_query = (\<lambda>q d g u. case q of None \<Rightarrow> Inl (Exception ''no query'') | Some t \<Rightarrow> Inr (t, [(''tp'', 2)])),
      build_query_plan = (\<lambda>q d g n. case q of None \<Rightarrow> Inl (Exception ''no query'') | Some t \<Rightarrow> Inr (t, [(''tp'', 2)])),
      engine_execute = (\<lambda>p q n. answer),
      encode_saved_plan = (\<lambda>s. case s of None \<Rightarrow> Inl (Exception ''no plan'') | Some t \<Rightarrow> Inr t),
      uuid4 = ''id1'',
      time = (\<lambda>k. of_nat k),
      responses = (\<lambda>b. encoder_error),
      SageSparqlQuery_load = (\<lambda>d. Inr (d, None)),
      QueryRequest_load = (\<lambda>d. Inr (d, None)),
      dataset_homepage = (\<lambda>g u. Inr ''home'')\<rparr>"

definition example_get :: "string \<Rightarrow> request" where
  "example_get token =
     \<lparr>http_method = ''GET'', is_json = False,
      args = [''default-graph-uri'' \<mapsto> ''g'', ''next'' \<mapsto> token],
      get_json = Map.empty, req_base_url = ''u'', req_url = ''u'',
      best_match = (\<lambda>offered. Some ''application/json'')\<rparr>"

definition example_post :: "string option \<Rightarrow> request" where
  "example_post token =
     \<lparr>http_method = ''POST'', is_json = True, args = Map.empty,
      get_json = [''query'' \<mapsto> Some ''q'', ''next'' \<mapsto> token],
      req_base_url = ''u'', req_url = ''u'',
      best_match = (\<lambda>offered. Some ''application/json'')\<rparr>"

section \<open>Theorems\<close>

subsection \<open>The steps of a query\<close>

lemma execute_query_resolved:
  "format_graph_uri env default_graph_uri url = Inr graph_name \<Longrightarrow> graphs ds graph_name = Some g \<Longrightarrow>
   execute_query env query default_graph_uri next_link ds mimetype url m =
     except_abort g (run_query env query default_graph_uri next_link ds mimetype url graph_name g
        \<lparr>store = m, effects = []\<rparr>)"
  by (simp add: execute_query_def attempt_def)

lemma run_query_no_plan:
  "build_plan env query next_link ds graph_name url (store w) = Inl err \<Longrightarrow>
   run_query env query default_graph_uri next_link ds mimetype url graph_name g w = (Raise err, w)"
  by (simp add: run_query_def attempt_def)

lemma run_query_engine_raises:
  "build_plan env query next_link ds graph_name url (store w) = Inr (plan, cards) \<Longrightarrow>
   engine_execute env plan (of_int (quota g) / 1000) (max_results g) = Inl err \<Longrightarrow>
   run_query env query default_graph_uri next_link ds mimetype url graph_name g w =
     (Raise err, emit (Execute plan (of_int (quota g) / 1000) (max_results g)) w)"
  by (simp add: run_query_def attempt_def Let_def)

lemma run_query_aborted:
  "build_plan env query next_link ds graph_name url (store w) = Inr (plan, cards) \<Longrightarrow>
   engine_execute env plan (of_int (quota g) / 1000) (max_results g) = Inr (bindings, saved_plan, is_done, Some reason) \<Longrightarrow>
   run_query env query default_graph_uri next_link ds mimetype url graph_name g w =
     (Return (SageHttpError (aborted_message reason)),
      graph_abort g (emit (Execute plan (of_int (quota g) / 1000) (max_results g)) w))"
  by (simp add: run_query_def attempt_def Let_def)

lemma run_query_committed:
  "build_plan env query next_link ds graph_name url (store w) = Inr (plan, cards) \<Longrightarrow>
   engine_execute env plan (of_int (quota g) / 1000) (max_results g) = Inr (bindings, saved_plan, is_done, None) \<Longrightarrow>
   save_continuation env ds next_link saved_plan is_done None
     (graph_commit g (emit (Execute plan (of_int (quota g) / 1000) (max_results g)) w)) = (next_page, w3) \<Longrightarrow>
   run_query env query default_graph_uri next_link ds mimetype url graph_name g w =
     (case next_page of
        Inl err \<Rightarrow> (Raise err, w3)
      | Inr n \<Rightarrow>
          (case send_response env mimetype query default_graph_uri bindings n
                  \<lparr>cardinalities = cards, import_ms = (time env 1 - time env 0) * 1000,
                     export_ms = (time env 3 - time env 2) * 1000\<rparr> url of
             Inl err \<Rightarrow> (Raise err, w3)
           | Inr r \<Rightarrow> (Return r, w3)))"
  by (simp add: run_query_def attempt_def Let_def split: sum.splits)



lemma execute_query_cases [consumes 2, case_names no_plan engine_raises aborted committed]:
  assumes uri: "format_graph_uri env default_graph_uri url = Inr graph_name"
    and graph: "graphs ds graph_name = Some g"
  obtains
    err where "build_plan env query next_link ds graph_name url m = Inl err"
      and "execute_query env query default_graph_uri next_link ds mimetype url m
             = (Raise err, \<lparr>store = m, effects = [Abort (gname g)]\<rparr>)"
  | plan cards err where "build_plan env query next_link ds graph_name url m = Inr (plan, cards)"
      and "engine_execute env plan (of_int (quota g) / 1000) (max_results g) = Inl err"
      and "execute_query env query default_graph_uri next_link ds mimetype url m
             = (Raise err, \<lparr>store = m, effects = [Execute plan (of_int (quota g) / 1000) (max_results g), Abort (gname g)]\<rparr>)"
  | plan cards bindings saved_plan is_done reason
      where "build_plan env query next_link ds graph_name url m = Inr (plan, cards)"
      and "engine_execute env plan (of_int (quota g) / 1000) (max_results g) = Inr (bindings, saved_plan, is_done, Some reason)"
      and "execute_query env query default_graph_uri next_link ds mimetype url m
             = (Return (SageHttpError (aborted_message reason)),
                \<lparr>store = m, effects = [Execute plan (of_int (quota g) / 1000) (max_results g), Abort (gname g)]\<rparr>)"
  | plan cards bindings saved_plan is_done next_page w3
      where "build_plan env query next_link ds graph_name url m = Inr (plan, cards)"
      and "engine_execute env plan (of_int (quota g) / 1000) (max_results g) = Inr (bindings, saved_plan, is_done, None)"
      and "save_continuation env ds next_link saved_plan is_done None
             \<lparr>store = m, effects = [Execute plan (of_int (quota g) / 1000) (max_results g), Commit (gname g)]\<rparr>
             = (next_page, w3)"
      and "execute_query env query default_graph_uri next_link ds mimetype url m =
             (case next_page of
                Inl err \<Rightarrow> (Raise err, graph_abort g w3)
              | Inr n \<Rightarrow>
                  (case send_response env mimetype query default_graph_uri bindings n
                          \<lparr>cardinalities = cards, import_ms = (time env 1 - time env 0) * 1000,
                             export_ms = (time env 3 - time env 2) * 1000\<rparr> url of
                     Inl err \<Rightarrow> (Raise err, graph_abort g w3)
                   | Inr r \<Rightarrow> (Return r, w3)))"
proof -
  let ?w = "\<lparr>store = m, effects = []\<rparr> :: 'a world"
  note eq = execute_query_resolved [OF uri graph, of query next_link mimetype m]
  show ?thesis
  proof (cases "build_plan env query next_link ds graph_name url (store ?w)")
    case (Inl err)
    from run_query_no_plan [OF Inl] have
      "execute_query env query default_graph_uri next_link ds mimetype url m
             = (Raise err, \<lparr>store = m, effects = [Abort (gname g)]\<rparr>)"
      by (simp add: eq except_abort_def graph_abort_def emit_def)
    with Inl show ?thesis by (auto intro: that(1))
  next
    case (Inr pc)
    obtain plan cards where pc: "pc = (plan, cards)" by (cases pc)
    note plan = Inr [unfolded pc]
    show ?thesis
    proof (cases "engine_execute env plan (of_int (quota g) / 1000) (max_results g)")
      case (Inl err)
      from run_query_engine_raises [OF plan Inl] have
        "execute_query env query default_graph_uri next_link ds mimetype url m
             = (Raise err, \<lparr>store = m, effects = [Execute plan (of_int (quota g) / 1000) (max_results g), Abort (gname g)]\<rparr>)"
        by (simp add: eq except_abort_def graph_abort_def emit_def)
      with plan Inl show ?thesis by (auto intro: that(2))
    next
      case (Inr a)
      obtain bindings saved_plan is_done abort_reason
        where a: "a = (bindings, saved_plan, is_done, abort_reason)" by (cases a)
      show ?thesis
      proof (cases abort_reason)
        case (Some reason)
        from run_query_aborted [OF plan Inr [unfolded a Some]] have
          "execute_query env query default_graph_uri next_link ds mimetype url m
             = (Return (SageHttpError (aborted_message reason)),
                \<lparr>store = m, effects = [Execute plan (of_int (quota g) / 1000) (max_results g), Abort (gname g)]\<rparr>)"
          by (simp add: eq except_abort_def graph_abort_def emit_def)
        with plan Inr a Some show ?thesis by (auto intro: that(3))
      next
        case None
        let ?w2 = "graph_commit g (emit (Execute plan (of_int (quota g) / 1000) (max_results g)) ?w)"
        obtain next_page w3
          where sc: "save_continuation env ds next_link saved_plan is_done None ?w2 = (next_page, w3)"
          by (cases "save_continuation env ds next_link saved_plan is_done None ?w2")
        from run_query_committed [OF plan Inr [unfolded a None] sc] have
          "execute_query env query default_graph_uri next_link ds mimetype url m =
             (case next_page of
                Inl err \<Rightarrow> (Raise err, graph_abort g w3)
              | Inr n \<Rightarrow>
                  (case send_response env mimetype query default_graph_uri bindings n
                          \<lparr>cardinalities = cards, import_ms = (time env 1 - time env 0) * 1000,
                             export_ms = (time env 3 - time env 2) * 1000\<rparr> url of
                     Inl err \<Rightarrow> (Raise err, graph_abort g w3)
                   | Inr r \<Rightarrow> (Return r, w3)))"
          by (simp add: eq except_abort_def split: sum.splits)
        moreover from sc have "save_continuation env ds next_link saved_plan is_done None
             \<lparr>store = m, effects = [Execute plan (of_int (quota g) / 1000) (max_results g), Commit (gname g)]\<rparr>
             = (next_page, w3)"
          by (simp add: graph_commit_def emit_def)
        ultimately show ?thesis using plan Inr a None by (auto intro: that(4))
      qed
    qed
  qed
qed

lemma save_continuation_effects:
  assumes "save_continuation env ds next_link saved_plan is_done abort_reason w = (next_page, w3)"
  shows "effects w3 = effects w
       \<or> (\<exists>token. effects w3 = effects w @ [SavePlan (case next_link of Some l \<Rightarrow> l | None \<Rightarrow> uuid4 env) token])
       \<or> (\<exists>l. next_link = Some l \<and> effects w3 = effects w @ [DeletePlan l])"
  using assms
  by (auto simp: save_continuation_def save_plan_def delete_plan_def emit_def Let_def
      split: sum.splits if_splits)

lemma build_plan_invalid:
  assumes "(is_stateless ds \<and> decode_saved_plan env token = Inl err)
         \<or> (\<not> is_stateless ds \<and> m token = None \<and> err = InvalidContinuation)
         \<or> (\<not> is_stateless ds \<and> (\<exists>t. m token = Some t \<and> decode_saved_plan env t = Inl err))"
  shows "build_plan env query (Some token) ds graph_name url m = Inl err"
  using assms by (auto simp: build_plan_def get_plan_def)

lemma save_continuation_done:
  "\<not> is_stateless ds \<Longrightarrow>
   save_continuation env ds (Some token) saved_plan True None w = (Inr None, delete_plan token w)"
  by (simp add: save_continuation_def)

lemma save_continuation_stateful:
  "\<not> is_stateless ds \<Longrightarrow> encode_saved_plan env saved_plan = Inr encoded \<Longrightarrow>
   save_continuation env ds next_link saved_plan False None w =
     (Inr (Some (case next_link of Some l \<Rightarrow> l | None \<Rightarrow> uuid4 env)),
      save_plan (case next_link of Some l \<Rightarrow> l | None \<Rightarrow> uuid4 env) encoded w)"
  by (simp add: save_continuation_def Let_def)


lemma send_response_next:
  "send_response env mimetype query default_graph_uri bindings n st url = Inr r \<Longrightarrow> response_next r = n"
  by (auto simp: send_response_def encode_def split: if_splits option.splits)

lemma save_continuation_fresh:
  assumes "save_continuation env ds None saved_plan is_done abort_reason w = (next_page, w3)"
  shows "effects w3 = effects w \<or> (\<exists>token. effects w3 = effects w @ [SavePlan (uuid4 env) token])"
  using save_continuation_effects [OF assms] by simp

lemma run_deprecated_effects:
  "effects (snd (run_deprecated env ds graph_name g req mimetype url w)) = effects w
   \<or> (\<exists>post_query err query plan cards rest.
        QueryRequest_load env (get_json req) = Inr (post_query, err)
        \<and> post_query ''query'' = Some query
        \<and> build_query_plan env query ds graph_name None = Inr (plan, cards)
        \<and> effects (snd (run_deprecated env ds graph_name g req mimetype url w))
            = effects w @ Execute plan (of_int (quota g) / 1000) (max_results g) # rest
        \<and> set rest \<subseteq> {Abort (gname g), Commit (gname g)} \<union> range (SavePlan (uuid4 env)))"
  by (auto simp: run_deprecated_def attempt_def Let_def getitem_def graph_abort_def graph_commit_def emit_def
      split: sum.splits prod.splits option.splits dest!: save_continuation_fresh)

lemma run_deprecated_event:
  assumes "e \<in> set (effects (snd (run_deprecated env ds graph_name g req mimetype url \<lparr>store = m, effects = []\<rparr>)))"
  shows "e = Abort (gname g) \<or> e = Commit (gname g) \<or> (\<exists>token. e = SavePlan (uuid4 env) token)
       \<or> (\<exists>post_query err query plan cards.
            QueryRequest_load env (get_json req) = Inr (post_query, err)
            \<and> post_query ''query'' = Some query
            \<and> build_query_plan env query ds graph_name None = Inr (plan, cards)
            \<and> e = Execute plan (of_int (quota g) / 1000) (max_results g))"
  using run_deprecated_effects [of env ds graph_name g req mimetype url "\<lparr>store = m, effects = []\<rparr>"] assms
  by auto

lemma sparql_query_event:
  assumes "e \<in> set (effects (snd (sparql_query env ds graph_name req m)))"
  shows "\<exists>g. graphs ds graph_name = Some g
           \<and> (e = Abort (gname g)
              \<or> (\<exists>url mimetype. e \<in> set (effects (snd (run_deprecated env ds graph_name g req mimetype url \<lparr>store = m, effects = []\<rparr>)))))"
  using assms
  by (auto simp: sparql_query_def attempt_def Let_def graph_abort_def emit_def
      split: option.splits sum.splits outcome.splits)

lemmas example_defs = example_env_def example_dataset_def example_graph_def

lemmas query_defs = execute_query_def run_query_def build_plan_def get_plan_def attempt_def
  save_continuation_def send_response_def encode_def except_abort_def graph_abort_def
  graph_commit_def emit_def save_plan_def delete_plan_def

subsection \<open>Transactions\<close>




subsection \<open>The call of the engine\<close>

text \<open>
  C2, as amended. Every call of the engine made by \<open>execute_query\<close> is
  \<^verbatim>\<open>execute(plan, quota / 1000, max_results)\<close>: the plan is the one built or reloaded
  for the request, the second argument is the quota of the resolved graph, configured in
  milliseconds, divided by 1000, and the third is the graph's \<open>max_results\<close> unchanged.
\<close>

theorem engine_arguments:
  assumes "Execute p q n \<in> set (effects (snd (execute_query env query default_graph_uri next_link ds mimetype url m)))"
  shows "\<exists>graph_name g cards. format_graph_uri env default_graph_uri url = Inr graph_name
           \<and> graphs ds graph_name = Some g
           \<and> build_plan env query next_link ds graph_name url m = Inr (p, cards)
           \<and> q = of_int (quota g) / 1000 \<and> n = max_results g"
proof (cases "format_graph_uri env default_graph_uri url")
  case (Inl err)
  with assms show ?thesis by (simp add: execute_query_def attempt_def)
next
  case (Inr graph_name)
  show ?thesis
  proof (cases "graphs ds graph_name")
    case None
    with assms Inr show ?thesis by (simp add: execute_query_def attempt_def)
  next
    case (Some g)
    from Inr Some show ?thesis
    proof (cases rule: execute_query_cases [where query = query and next_link = next_link and mimetype = mimetype and m = m])
      case (no_plan err)
      with assms show ?thesis by simp
    next
      case (engine_raises plan cards err)
      with assms Inr Some show ?thesis by auto
    next
      case (aborted plan cards bindings saved_plan is_done reason)
      with assms Inr Some show ?thesis by auto
    next
      case (committed plan cards bindings saved_plan is_done next_page w3)
      from save_continuation_effects [OF committed(3)]
      have "Execute p q n \<in> set (effects w3) \<Longrightarrow> p = plan \<and> q = of_int (quota g) / 1000 \<and> n = max_results g"
        by auto
      with assms committed(4) have "p = plan \<and> q = of_int (quota g) / 1000 \<and> n = max_results g"
        by (auto simp: graph_abort_def emit_def split: sum.splits)
      with committed(1) Inr Some show ?thesis by auto
    qed
  qed
qed


theorem engine_arguments_witness:
  "Execute ''q'' 3 10 \<in> set (effects (snd (execute_query (example_env (Inr ([''b''], None, True, None)) None)
        (Some ''q'') (Some ''g'') None (example_dataset True) None ''u'' Map.empty)))
   \<and> (\<exists>graph_name g cards.
         format_graph_uri (example_env (Inr ([''b''], None, True, None)) None) (Some ''g'') ''u'' = Inr graph_name
         \<and> graphs (example_dataset True) graph_name = Some g
         \<and> build_plan (example_env (Inr ([''b''], None, True, None)) None) (Some ''q'') None
               (example_dataset True) graph_name ''u'' Map.empty = Inr (''q'', cards)
         \<and> (3::rat) = of_int (quota g) / 1000 \<and> (10::int) = max_results g)"
proof -
  have called: "Execute ''q'' 3 10 \<in> set (effects (snd (execute_query (example_env (Inr ([''b''], None, True, None)) None)
        (Some ''q'') (Some ''g'') None (example_dataset True) None ''u'' Map.empty)))"
    by (simp add: query_defs example_defs)
  from engine_arguments [OF called] called show ?thesis
    by simp
qed

text \<open>
  C2 as stated fails: on a graph whose quota is 3000 milliseconds the engine is called
  with the quota 3, not with 3000.
\<close>

theorem engine_quota_divided:
  "quota example_graph = 3000
   \<and> effects (snd (execute_query (example_env (Inr ([''b''], None, True, None)) None)
        (Some ''q'') (Some ''g'') None (example_dataset True) None ''u'' Map.empty))
       = [Execute ''q'' 3 10, Commit ''g'']
   \<and> Execute ''q'' (of_int (quota example_graph)) 10 \<notin> set (effects (snd (execute_query
        (example_env (Inr ([''b''], None, True, None)) None)
        (Some ''q'') (Some ''g'') None (example_dataset True) None ''u'' Map.empty)))"
  by (simp add: query_defs example_defs)

subsection \<open>An abort of the engine\<close>




subsection \<open>Statistics of a resumed query\<close>

text \<open>
  C10. Whenever a continuation is present in the request, the cardinalities in the
  statistics of the response of \<open>execute_query\<close> are empty.
\<close>

theorem continuation_no_cardinalities:
  assumes "fst (execute_query env query default_graph_uri (Some l) ds mimetype url m) = Return x"
  shows "case x of Response b c hs \<Rightarrow> cardinalities (body_stats b) = []
         | RenderTemplate b \<Rightarrow> cardinalities (body_stats b) = []
         | _ \<Rightarrow> True"
proof (cases "format_graph_uri env default_graph_uri url")
  case (Inl err)
  with assms show ?thesis by (simp add: execute_query_def attempt_def)
next
  case (Inr graph_name)
  show ?thesis
  proof (cases "graphs ds graph_name")
    case None
    with assms Inr show ?thesis by (auto simp add: execute_query_def attempt_def)
  next
    case (Some g)
    from Inr Some show ?thesis
    proof (cases rule: execute_query_cases [where query = query and next_link = "Some l" and mimetype = mimetype and m = m])
      case (no_plan err)
      with assms show ?thesis by simp
    next
      case (engine_raises plan cards err)
      with assms show ?thesis by auto
    next
      case (aborted plan cards bindings saved_plan is_done reason)
      with assms show ?thesis by auto
    next
      case (committed plan cards bindings saved_plan is_done next_page w3)
      from committed(1) have cards: "cards = []"
        by (auto simp: build_plan_def split: sum.splits)
      from assms committed(4) show ?thesis
        by (auto simp: cards send_response_def encode_def split: sum.splits if_splits option.splits)
    qed
  qed
qed


theorem continuation_no_cardinalities_witness:
  "fst (execute_query (example_env (Inr ([''b''], None, True, None)) None)
        None (Some ''g'') (Some ''tok'') (example_dataset True) (Some ''application/xml'') ''u'' Map.empty)
     = Return (Response (W3cXml [''b''] None \<lparr>cardinalities = [], import_ms = 1000, export_ms = 1000\<rparr>)
         ''application/xml'' [])
   \<and> cardinalities (body_stats (W3cXml [''b''] None \<lparr>cardinalities = [], import_ms = 1000, export_ms = 1000\<rparr>)) = []"
proof -
  have page: "fst (execute_query (example_env (Inr ([''b''], None, True, None)) None)
        None (Some ''g'') (Some ''tok'') (example_dataset True) (Some ''application/xml'') ''u'' Map.empty)
     = Return (Response (W3cXml [''b''] None \<lparr>cardinalities = [], import_ms = 1000, export_ms = 1000\<rparr>)
         ''application/xml'' [])"
    by (simp add: query_defs example_defs)
  from continuation_no_cardinalities [OF page] page show ?thesis
    by simp
qed

subsection \<open>Continuations\<close>

text \<open>
  C4, as amended. For every request whose graph is resolved and whose continuation token
  cannot be decoded or references a missing saved plan, \<open>execute_query\<close> calls \<open>abort\<close>
  on the graph once (and neither the engine nor \<open>commit\<close>), leaves the store as it was
  and raises the exception again; \<open>sparql_index\<close> answers it with \<^verbatim>\<open>abort(500)\<close>, the
  status of a server error (an \<open>UnsupportedSPARQL\<close> exception alone is answered with the
  error response carrying its message).
\<close>

theorem invalid_continuation_aborts:
  assumes uri: "format_graph_uri env default_graph_uri url = Inr graph_name"
    and graph: "graphs ds graph_name = Some g"
    and bad: "(is_stateless ds \<and> decode_saved_plan env token = Inl err)
         \<or> (\<not> is_stateless ds \<and> m token = None \<and> err = InvalidContinuation)
         \<or> (\<not> is_stateless ds \<and> (\<exists>t. m token = Some t \<and> decode_saved_plan env t = Inl err))"
  shows "execute_query env query default_graph_uri (Some token) ds mimetype url m
           = (Raise err, \<lparr>store = m, effects = [Abort (gname g)]\<rparr>)
       \<and> index_except (execute_query env query default_graph_uri (Some token) ds mimetype url m)
           = (case err of UnsupportedSPARQL t \<Rightarrow> Return (SageHttpError t) | _ \<Rightarrow> Raise (HTTPException 500),
              \<lparr>store = m, effects = [Abort (gname g)]\<rparr>)"
proof -
  from bad
  have "build_plan env query (Some token) ds graph_name url (store \<lparr>store = m, effects = []\<rparr>) = Inl err"
    by (simp add: build_plan_invalid)
  from run_query_no_plan [OF this]
  have run: "execute_query env query default_graph_uri (Some token) ds mimetype url m
           = (Raise err, \<lparr>store = m, effects = [Abort (gname g)]\<rparr>)"
    by (simp add: execute_query_resolved [OF uri graph] except_abort_def graph_abort_def emit_def)
  then show ?thesis
    by (simp add: index_except_def split: exn.splits)
qed


theorem invalid_continuation_aborts_witness:
  "format_graph_uri (example_env (Inr ([''b''], None, True, None)) None) (Some ''g'') ''u'' = Inr ''g''
   \<and> graphs (example_dataset False) ''g'' = Some example_graph
   \<and> \<not> is_stateless (example_dataset False) \<and> Map.empty ''id0'' = (None :: string option)
   \<and> execute_query (example_env (Inr ([''b''], None, True, None)) None) None (Some ''g'') (Some ''id0'') (example_dataset False) None ''u'' Map.empty
       = (Raise InvalidContinuation, \<lparr>store = Map.empty, effects = [Abort ''g'']\<rparr>)
   \<and> index_except (execute_query (example_env (Inr ([''b''], None, True, None)) None) None (Some ''g'') (Some ''id0'') (example_dataset False) None ''u'' Map.empty)
       = (Raise (HTTPException 500), \<lparr>store = Map.empty, effects = [Abort ''g'']\<rparr>)"
proof -
  have uri: "format_graph_uri (example_env (Inr ([''b''], None, True, None)) None) (Some ''g'') ''u'' = Inr ''g''"
    by (simp add: example_defs)
  have graph: "graphs (example_dataset False) ''g'' = Some example_graph"
    by (simp add: example_defs)
  have stateful: "\<not> is_stateless (example_dataset False)"
    by (simp add: example_defs)
  have missing: "Map.empty ''id0'' = (None :: string option)"
    by simp
  have bad: "(is_stateless (example_dataset False) \<and> decode_saved_plan (example_env (Inr ([''b''], None, True, None)) None) ''id0'' = Inl InvalidContinuation)
         \<or> (\<not> is_stateless (example_dataset False) \<and> Map.empty ''id0'' = None \<and> InvalidContinuation = InvalidContinuation)
         \<or> (\<not> is_stateless (example_dataset False) \<and> (\<exists>t. Map.empty ''id0'' = Some t \<and> decode_saved_plan (example_env (Inr ([''b''], None, True, None)) None) t = Inl InvalidContinuation))"
    using stateful by simp
  note aborts = invalid_continuation_aborts [OF uri graph bad, where query = None and mimetype = None]
  have raised: "execute_query (example_env (Inr ([''b''], None, True, None)) None) None (Some ''g'') (Some ''id0'') (example_dataset False) None ''u'' Map.empty
       = (Raise InvalidContinuation, \<lparr>store = Map.empty, effects = [Abort ''g'']\<rparr>)"
    using aborts [THEN conjunct1] by (simp add: example_graph_def)
  have answered: "index_except (execute_query (example_env (Inr ([''b''], None, True, None)) None) None (Some ''g'') (Some ''id0'') (example_dataset False) None ''u'' Map.empty)
       = (Raise (HTTPException 500), \<lparr>store = Map.empty, effects = [Abort ''g'']\<rparr>)"
    using aborts [THEN conjunct2] by (simp add: example_graph_def)
  from uri graph stateful missing raised answered show ?thesis
    by (intro conjI)
qed

text \<open>
  C4 as stated fails: a request to \<^verbatim>\<open>/sparql\<close> with a token that cannot be decoded
  (stateless mode), or with an id that has no saved plan (stateful mode), is answered
  with \<^verbatim>\<open>abort(500)\<close> after an \<open>abort\<close> on the graph.
\<close>

theorem invalid_continuation_server_error:
  "sparql_index (example_env (Inr ([''b''], None, True, None)) None) (example_dataset True)
       (example_get ''corrupt'') Map.empty
     = (Raise (HTTPException 500), \<lparr>store = Map.empty, effects = [Abort ''g'']\<rparr>)
   \<and> sparql_index (example_env (Inr ([''b''], None, True, None)) None) (example_dataset False)
       (example_get ''id0'') Map.empty
     = (Raise (HTTPException 500), \<lparr>store = Map.empty, effects = [Abort ''g'']\<rparr>)"
  by (simp add: sparql_index_def index_except_def or_None_def example_get_def query_defs example_defs)


text \<open>
  C5. In stateful mode, whenever an execution resumed from a continuation id finishes
  with \<open>is_done\<close>, \<open>execute_query\<close> deletes the plan saved under that id, and a further
  request with the same id, whatever else it carries, finds no saved plan and raises
  \<open>InvalidContinuation\<close>.
\<close>

theorem completed_plan_deleted:
  assumes stateful: "\<not> is_stateless ds"
    and uri: "format_graph_uri env default_graph_uri url = Inr graph_name"
    and graph: "graphs ds graph_name = Some g"
    and plan: "build_plan env query (Some token) ds graph_name url m = Inr (plan, cards)"
    and finished: "engine_execute env plan (of_int (quota g) / 1000) (max_results g) = Inr (bindings, saved_plan, True, None)"
  shows "DeletePlan token \<in> set (effects (snd (execute_query env query default_graph_uri (Some token) ds mimetype url m)))
       \<and> store (snd (execute_query env query default_graph_uri (Some token) ds mimetype url m)) = m(token := None)
       \<and> (\<forall>env' query' default_graph_uri' mimetype' url' graph_name' g'.
            format_graph_uri env' default_graph_uri' url' = Inr graph_name' \<longrightarrow>
            graphs ds graph_name' = Some g' \<longrightarrow>
            fst (execute_query (env' :: ('p, 's, 'b) env) query' default_graph_uri' (Some token) ds mimetype' url'
                   (store (snd (execute_query env query default_graph_uri (Some token) ds mimetype url m))))
              = (Raise InvalidContinuation :: 'b outcome))"
proof -
  let ?r = "execute_query env query default_graph_uri (Some token) ds mimetype url m"
  from uri graph have del: "DeletePlan token \<in> set (effects (snd ?r)) \<and> store (snd ?r) = m(token := None)"
  proof (cases rule: execute_query_cases [where query = query and next_link = "Some token" and mimetype = mimetype and m = m])
    case (no_plan err)
    with plan show ?thesis by simp
  next
    case (engine_raises plan' cards' err)
    with plan finished show ?thesis by simp
  next
    case (aborted plan' cards' bindings' saved_plan' is_done reason)
    with plan finished show ?thesis by simp
  next
    case (committed plan' cards' bindings' saved_plan' is_done next_page w3)
    from committed(1,2) plan finished
    have same: "saved_plan' = saved_plan" "is_done = True" "plan' = plan" by simp_all
    from committed(3) have "next_page = Inr None"
      and "w3 = delete_plan token \<lparr>store = m, effects = [Execute plan (of_int (quota g) / 1000) (max_results g), Commit (gname g)]\<rparr>"
      by (simp_all add: same save_continuation_done [OF stateful])
    with committed(4) show ?thesis
      by (auto simp: delete_plan_def graph_abort_def emit_def split: sum.splits)
  qed
  have again: "fst (execute_query (env' :: ('p, 's, 'b) env) query' default_graph_uri' (Some token) ds mimetype' url' (store (snd ?r)))
              = (Raise InvalidContinuation :: 'b outcome)"
    if "format_graph_uri env' default_graph_uri' url' = Inr graph_name'" and "graphs ds graph_name' = Some g'"
    for env' query' default_graph_uri' mimetype' url' graph_name' g'
  proof -
    have "build_plan env' query' (Some token) ds graph_name' url' (store \<lparr>store = store (snd ?r), effects = []\<rparr>) = Inl InvalidContinuation"
      using stateful del by (simp add: build_plan_def get_plan_def)
    from run_query_no_plan [OF this] show ?thesis
      by (simp add: execute_query_resolved [OF that] except_abort_def)
  qed
  from del again show ?thesis by blast
qed


theorem completed_plan_deleted_witness:
  "\<not> is_stateless (example_dataset False)
   \<and> format_graph_uri (example_env (Inr ([''b''], None, True, None)) None) (Some ''g'') ''u'' = Inr ''g''
   \<and> graphs (example_dataset False) ''g'' = Some example_graph
   \<and> build_plan (example_env (Inr ([''b''], None, True, None)) None) None (Some ''id0'') (example_dataset False) ''g'' ''u'' [''id0'' \<mapsto> ''tok0''] = Inr (''tok0'', [])
   \<and> engine_execute (example_env (Inr ([''b''], None, True, None)) None) ''tok0'' (of_int (quota example_graph) / 1000) (max_results example_graph)
       = Inr ([''b''], None, True, None)
   \<and> store (snd (execute_query (example_env (Inr ([''b''], None, True, None)) None) None (Some ''g'') (Some ''id0'') (example_dataset False) None ''u''
        [''id0'' \<mapsto> ''tok0''])) ''id0'' = None
   \<and> fst (execute_query (example_env (Inr ([''b''], None, True, None)) None) None (Some ''g'') (Some ''id0'') (example_dataset False) None ''u''
        (store (snd (execute_query (example_env (Inr ([''b''], None, True, None)) None) None (Some ''g'') (Some ''id0'') (example_dataset False) None ''u''
           [''id0'' \<mapsto> ''tok0''])))) = Raise InvalidContinuation"
proof -
  have stateful: "\<not> is_stateless (example_dataset False)"
    by (simp add: example_defs)
  have uri: "format_graph_uri (example_env (Inr ([''b''], None, True, None)) None) (Some ''g'') ''u'' = Inr ''g''"
    by (simp add: example_defs)
  have graph: "graphs (example_dataset False) ''g'' = Some example_graph"
    by (simp add: example_defs)
  have plan: "build_plan (example_env (Inr ([''b''], None, True, None)) None) None (Some ''id0'') (example_dataset False) ''g'' ''u'' [''id0'' \<mapsto> ''tok0''] = Inr (''tok0'', [])"
    by (simp add: build_plan_def get_plan_def example_defs)
  have finished: "engine_execute (example_env (Inr ([''b''], None, True, None)) None) ''tok0'' (of_int (quota example_graph) / 1000) (max_results example_graph)
       = Inr ([''b''], None, True, None)"
    by (simp add: example_defs)
  note deleted = completed_plan_deleted [OF stateful uri graph plan finished, where mimetype = None]
  have gone: "store (snd (execute_query (example_env (Inr ([''b''], None, True, None)) None) None (Some ''g'') (Some ''id0'') (example_dataset False) None ''u''
        [''id0'' \<mapsto> ''tok0''])) ''id0'' = None"
    using deleted [THEN conjunct2, THEN conjunct1] by simp
  have again: "fst (execute_query (example_env (Inr ([''b''], None, True, None)) None) None (Some ''g'') (Some ''id0'') (example_dataset False) None ''u''
        (store (snd (execute_query (example_env (Inr ([''b''], None, True, None)) None) None (Some ''g'') (Some ''id0'') (example_dataset False) None ''u''
           [''id0'' \<mapsto> ''tok0''])))) = Raise InvalidContinuation"
    using deleted [THEN conjunct2, THEN conjunct2, rule_format, OF uri graph] .
  from stateful uri graph plan finished gone again show ?thesis
    by (intro conjI)
qed

text \<open>
  C6. In stateful mode, on a suspension, the encoded plan is saved under
  \<^verbatim>\<open>str(uuid4())\<close> when the request carried no \<open>next_link\<close> and under the \<open>next_link\<close>
  itself otherwise, replacing what that id held and nothing else; the id is the \<open>next\<close> of
  the response.
\<close>

theorem plan_id_reused:
  assumes stateful: "\<not> is_stateless ds"
    and uri: "format_graph_uri env default_graph_uri url = Inr graph_name"
    and graph: "graphs ds graph_name = Some g"
    and plan: "build_plan env query next_link ds graph_name url m = Inr (plan, cards)"
    and suspended: "engine_execute env plan (of_int (quota g) / 1000) (max_results g) = Inr (bindings, saved_plan, False, None)"
    and encoded: "encode_saved_plan env saved_plan = Inr encoded"
  shows "case next_link of
           None \<Rightarrow>
             store (snd (execute_query env query default_graph_uri next_link ds mimetype url m)) = m(uuid4 env \<mapsto> encoded)
             \<and> SavePlan (uuid4 env) encoded \<in> set (effects (snd (execute_query env query default_graph_uri next_link ds mimetype url m)))
             \<and> (\<forall>x. fst (execute_query env query default_graph_uri next_link ds mimetype url m) = Return x
                   \<longrightarrow> response_next x = Some (uuid4 env))
         | Some l \<Rightarrow>
             store (snd (execute_query env query default_graph_uri next_link ds mimetype url m)) = m(l \<mapsto> encoded)
             \<and> SavePlan l encoded \<in> set (effects (snd (execute_query env query default_graph_uri next_link ds mimetype url m)))
             \<and> (\<forall>x. fst (execute_query env query default_graph_uri next_link ds mimetype url m) = Return x
                   \<longrightarrow> response_next x = Some l)"
proof -
  let ?r = "execute_query env query default_graph_uri next_link ds mimetype url m"
  let ?id = "case next_link of Some l \<Rightarrow> l | None \<Rightarrow> uuid4 env"
  from uri graph
  have "store (snd ?r) = m(?id \<mapsto> encoded) \<and> SavePlan ?id encoded \<in> set (effects (snd ?r))
      \<and> (\<forall>x. fst ?r = Return x \<longrightarrow> response_next x = Some ?id)"
  proof (cases rule: execute_query_cases [where query = query and next_link = next_link and mimetype = mimetype and m = m])
    case (no_plan err)
    with plan show ?thesis by simp
  next
    case (engine_raises plan' cards' err)
    with plan suspended show ?thesis by simp
  next
    case (aborted plan' cards' bindings' saved_plan' is_done reason)
    with plan suspended show ?thesis by simp
  next
    case (committed plan' cards' bindings' saved_plan' is_done next_page w3)
    from committed(1,2) plan suspended
    have same: "saved_plan' = saved_plan" "is_done = False" "plan' = plan" by simp_all
    from committed(3) have "next_page = Inr (Some ?id)"
      and "w3 = save_plan ?id encoded \<lparr>store = m, effects = [Execute plan (of_int (quota g) / 1000) (max_results g), Commit (gname g)]\<rparr>"
      by (simp_all add: same save_continuation_stateful [OF stateful encoded])
    with committed(4) show ?thesis
      by (auto simp: save_plan_def graph_abort_def emit_def split: sum.splits dest: send_response_next)
  qed
  then show ?thesis by (cases next_link) simp_all
qed


theorem plan_id_reused_witness:
  "\<not> is_stateless (example_dataset False)
   \<and> format_graph_uri (example_env (Inr ([''b''], Some ''sp1'', False, None)) None) (Some ''g'') ''u'' = Inr ''g''
   \<and> graphs (example_dataset False) ''g'' = Some example_graph
   \<and> build_plan (example_env (Inr ([''b''], Some ''sp1'', False, None)) None) None (Some ''id0'') (example_dataset False) ''g'' ''u'' [''id0'' \<mapsto> ''tok0''] = Inr (''tok0'', [])
   \<and> engine_execute (example_env (Inr ([''b''], Some ''sp1'', False, None)) None) ''tok0'' (of_int (quota example_graph) / 1000) (max_results example_graph)
       = Inr ([''b''], Some ''sp1'', False, None)
   \<and> encode_saved_plan (example_env (Inr ([''b''], Some ''sp1'', False, None)) None) (Some ''sp1'') = Inr ''sp1''
   \<and> store (snd (execute_query (example_env (Inr ([''b''], Some ''sp1'', False, None)) None) None (Some ''g'') (Some ''id0'') (example_dataset False) None ''u''
        [''id0'' \<mapsto> ''tok0''])) ''id0'' = Some ''sp1''
   \<and> SavePlan ''id0'' ''sp1'' \<in> set (effects (snd (execute_query (example_env (Inr ([''b''], Some ''sp1'', False, None)) None) None (Some ''g'') (Some ''id0'')
        (example_dataset False) None ''u'' [''id0'' \<mapsto> ''tok0''])))"
proof -
  have stateful: "\<not> is_stateless (example_dataset False)"
    by (simp add: example_defs)
  have uri: "format_graph_uri (example_env (Inr ([''b''], Some ''sp1'', False, None)) None) (Some ''g'') ''u'' = Inr ''g''"
    by (simp add: example_defs)
  have graph: "graphs (example_dataset False) ''g'' = Some example_graph"
    by (simp add: example_defs)
  have plan: "build_plan (example_env (Inr ([''b''], Some ''sp1'', False, None)) None) None (Some ''id0'') (example_dataset False) ''g'' ''u'' [''id0'' \<mapsto> ''tok0''] = Inr (''tok0'', [])"
    by (simp add: build_plan_def get_plan_def example_defs)
  have suspended: "engine_execute (example_env (Inr ([''b''], Some ''sp1'', False, None)) None) ''tok0'' (of_int (quota example_graph) / 1000) (max_results example_graph)
       = Inr ([''b''], Some ''sp1'', False, None)"
    by (simp add: example_defs)
  have encoded: "encode_saved_plan (example_env (Inr ([''b''], Some ''sp1'', False, None)) None) (Some ''sp1'') = Inr ''sp1''"
    by (simp add: example_defs)
  from plan_id_reused [OF stateful uri graph plan suspended encoded, where mimetype = None]
  have "store (snd (execute_query (example_env (Inr ([''b''], Some ''sp1'', False, None)) None) None (Some ''g'') (Some ''id0'') (example_dataset False) None ''u''
        [''id0'' \<mapsto> ''tok0''])) ''id0'' = Some ''sp1''"
    and "SavePlan ''id0'' ''sp1'' \<in> set (effects (snd (execute_query (example_env (Inr ([''b''], Some ''sp1'', False, None)) None) None (Some ''g'') (Some ''id0'')
        (example_dataset False) None ''u'' [''id0'' \<mapsto> ''tok0''])))"
    by simp_all
  with stateful uri graph plan suspended encoded show ?thesis
    by (intro conjI)
qed




subsection \<open>The deprecated route\<close>

text \<open>
  C8. In the handler of \<^verbatim>\<open>/sparql/<graph_name>\<close> the variable \<open>next_link\<close> stays \<open>None\<close>.
  So for every request to that route: every plan given to the engine is the one
  \<open>build_query_plan\<close> builds from the query text with no continuation, whatever the
  \<open>next\<close> of the request loaded; every plan saved to the store is saved under
  \<^verbatim>\<open>str(uuid4())\<close>; and \<open>delete_plan\<close> is never called. In stateful mode a suspension
  does save the encoded plan under that new id, also when the request carried a \<open>next\<close>.
\<close>

theorem deprecated_route_ignores_next:
  "(\<forall>p q n. Execute p q n \<in> set (effects (snd (sparql_query env ds graph_name req m))) \<longrightarrow>
      (\<exists>post_query err query cards.
          QueryRequest_load env (get_json req) = Inr (post_query, err)
          \<and> post_query ''query'' = Some query
          \<and> build_query_plan env query ds graph_name None = Inr (p, cards)))
   \<and> (\<forall>i t. SavePlan i t \<in> set (effects (snd (sparql_query env ds graph_name req m))) \<longrightarrow> i = uuid4 env)
   \<and> (\<forall>i. DeletePlan i \<notin> set (effects (snd (sparql_query env ds graph_name req m))))
   \<and> (\<not> is_stateless ds \<longrightarrow> graphs ds graph_name = Some g \<longrightarrow> secure_url env (req_url req) = Inr url \<longrightarrow>
       http_method req \<noteq> ''GET'' \<longrightarrow> is_json req \<longrightarrow>
       QueryRequest_load env (get_json req) = Inr (post_query, None) \<longrightarrow>
       load_next env ds post_query m = Inr loaded \<longrightarrow>
       post_query ''query'' = Some query \<longrightarrow>
       build_query_plan env query ds graph_name None = Inr (plan, cards) \<longrightarrow>
       engine_execute env plan (of_int (quota g) / 1000) (max_results g) = Inr (bindings, saved_plan, False, None) \<longrightarrow>
       encode_saved_plan env saved_plan = Inr encoded \<longrightarrow>
         SavePlan (uuid4 env) encoded \<in> set (effects (snd (sparql_query env ds graph_name req m)))
         \<and> Execute plan (of_int (quota g) / 1000) (max_results g) \<in> set (effects (snd (sparql_query env ds graph_name req m)))
         \<and> store (snd (sparql_query env ds graph_name req m)) = m(uuid4 env \<mapsto> encoded))"
proof (intro conjI allI impI notI)
  fix p q n
  assume "Execute p q n \<in> set (effects (snd (sparql_query env ds graph_name req m)))"
  from sparql_query_event [OF this]
  obtain g url mimetype where
    "Execute p q n \<in> set (effects (snd (run_deprecated env ds graph_name g req mimetype url \<lparr>store = m, effects = []\<rparr>)))"
    by auto
  from run_deprecated_event [OF this]
  show "\<exists>post_query err query cards.
          QueryRequest_load env (get_json req) = Inr (post_query, err)
          \<and> post_query ''query'' = Some query
          \<and> build_query_plan env query ds graph_name None = Inr (p, cards)"
    by auto
next
  fix i t
  assume "SavePlan i t \<in> set (effects (snd (sparql_query env ds graph_name req m)))"
  from sparql_query_event [OF this]
  obtain g url mimetype where
    "SavePlan i t \<in> set (effects (snd (run_deprecated env ds graph_name g req mimetype url \<lparr>store = m, effects = []\<rparr>)))"
    by auto
  from run_deprecated_event [OF this]
  show "i = uuid4 env"
    by auto
next
  fix i
  assume "DeletePlan i \<in> set (effects (snd (sparql_query env ds graph_name req m)))"
  from sparql_query_event [OF this]
  obtain g url mimetype where
    "DeletePlan i \<in> set (effects (snd (run_deprecated env ds graph_name g req mimetype url \<lparr>store = m, effects = []\<rparr>)))"
    by auto
  from run_deprecated_event [OF this]
  show False
    by auto
next
  assume a: "\<not> is_stateless ds" "graphs ds graph_name = Some g" "secure_url env (req_url req) = Inr url"
    "http_method req \<noteq> ''GET''" "is_json req"
    "QueryRequest_load env (get_json req) = Inr (post_query, None)"
    "load_next env ds post_query m = Inr loaded"
    "post_query ''query'' = Some query"
    "build_query_plan env query ds graph_name None = Inr (plan, cards)"
    "engine_execute env plan (of_int (quota g) / 1000) (max_results g) = Inr (bindings, saved_plan, False, None)"
    "encode_saved_plan env saved_plan = Inr encoded"
  then have run: "snd (run_deprecated env ds graph_name g req mimetype url \<lparr>store = m, effects = []\<rparr>)
      = \<lparr>store = m(uuid4 env \<mapsto> encoded),
         effects = [Execute plan (of_int (quota g) / 1000) (max_results g), Commit (gname g), SavePlan (uuid4 env) encoded]\<rparr>"
    for mimetype
    by (simp add: run_deprecated_def attempt_def Let_def getitem_def save_continuation_def save_plan_def
        graph_commit_def emit_def split: sum.splits)
  from a(2,3) run
  show "SavePlan (uuid4 env) encoded \<in> set (effects (snd (sparql_query env ds graph_name req m)))"
    and "Execute plan (of_int (quota g) / 1000) (max_results g) \<in> set (effects (snd (sparql_query env ds graph_name req m)))"
    and "store (snd (sparql_query env ds graph_name req m)) = m(uuid4 env \<mapsto> encoded)"
    by (simp_all add: sparql_query_def attempt_def Let_def graph_abort_def emit_def split: outcome.splits)
qed


theorem deprecated_route_ignores_next_witness:
  "\<not> is_stateless (example_dataset False)
   \<and> graphs (example_dataset False) ''g'' = Some example_graph
   \<and> secure_url (example_env (Inr ([''b''], Some ''sp1'', False, None)) None) (req_url (example_post (Some ''id0''))) = Inr ''u''
   \<and> http_method (example_post (Some ''id0'')) \<noteq> ''GET'' \<and> is_json (example_post (Some ''id0''))
   \<and> QueryRequest_load (example_env (Inr ([''b''], Some ''sp1'', False, None)) None) (get_json (example_post (Some ''id0'')))
        = Inr ([''query'' \<mapsto> Some ''q'', ''next'' \<mapsto> Some ''id0''], None)
   \<and> load_next (example_env (Inr ([''b''], Some ''sp1'', False, None)) None) (example_dataset False) [''query'' \<mapsto> Some ''q'', ''next'' \<mapsto> Some ''id0'']
        [''id0'' \<mapsto> ''tok0''] = Inr (Some ''tok0'')
   \<and> [''query'' \<mapsto> Some ''q'', ''next'' \<mapsto> Some ''id0''] ''query'' = Some (Some ''q'')
   \<and> build_query_plan (example_env (Inr ([''b''], Some ''sp1'', False, None)) None) (Some ''q'') (example_dataset False) ''g'' None = Inr (''q'', [(''tp'', 2)])
   \<and> engine_execute (example_env (Inr ([''b''], Some ''sp1'', False, None)) None) ''q'' (of_int (quota example_graph) / 1000) (max_results example_graph)
        = Inr ([''b''], Some ''sp1'', False, None)
   \<and> encode_saved_plan (example_env (Inr ([''b''], Some ''sp1'', False, None)) None) (Some ''sp1'') = Inr ''sp1''
   \<and> SavePlan (uuid4 (example_env (Inr ([''b''], Some ''sp1'', False, None)) None)) ''sp1'' \<in> set (effects (snd (sparql_query (example_env (Inr ([''b''], Some ''sp1'', False, None)) None) (example_dataset False) ''g''
        (example_post (Some ''id0'')) [''id0'' \<mapsto> ''tok0''])))
   \<and> Execute ''q'' (of_int (quota example_graph) / 1000) (max_results example_graph)
        \<in> set (effects (snd (sparql_query (example_env (Inr ([''b''], Some ''sp1'', False, None)) None) (example_dataset False) ''g''
        (example_post (Some ''id0'')) [''id0'' \<mapsto> ''tok0''])))
   \<and> uuid4 (example_env (Inr ([''b''], Some ''sp1'', False, None)) None) = ''id1''"
proof -
  have stateful: "\<not> is_stateless (example_dataset False)"
    by (simp add: example_defs)
  have graph: "graphs (example_dataset False) ''g'' = Some example_graph"
    by (simp add: example_defs)
  have url: "secure_url (example_env (Inr ([''b''], Some ''sp1'', False, None)) None) (req_url (example_post (Some ''id0''))) = Inr ''u''"
    by (simp add: example_defs example_post_def)
  have post: "http_method (example_post (Some ''id0'')) \<noteq> ''GET''"
    by (simp add: example_post_def)
  have json: "is_json (example_post (Some ''id0''))"
    by (simp add: example_post_def)
  have posted: "QueryRequest_load (example_env (Inr ([''b''], Some ''sp1'', False, None)) None) (get_json (example_post (Some ''id0'')))
        = Inr ([''query'' \<mapsto> Some ''q'', ''next'' \<mapsto> Some ''id0''], None)"
    by (simp add: example_defs example_post_def)
  have loaded: "load_next (example_env (Inr ([''b''], Some ''sp1'', False, None)) None) (example_dataset False) [''query'' \<mapsto> Some ''q'', ''next'' \<mapsto> Some ''id0'']
        [''id0'' \<mapsto> ''tok0''] = Inr (Some ''tok0'')"
    by (simp add: load_next_def get_plan_def example_defs)
  have query: "[''query'' \<mapsto> Some ''q'', ''next'' \<mapsto> Some ''id0''] ''query'' = Some (Some ''q'')"
    by simp
  have plan: "build_query_plan (example_env (Inr ([''b''], Some ''sp1'', False, None)) None) (Some ''q'') (example_dataset False) ''g'' None = Inr (''q'', [(''tp'', 2)])"
    by (simp add: example_defs)
  have suspended: "engine_execute (example_env (Inr ([''b''], Some ''sp1'', False, None)) None) ''q'' (of_int (quota example_graph) / 1000) (max_results example_graph)
        = Inr ([''b''], Some ''sp1'', False, None)"
    by (simp add: example_defs)
  have encoded: "encode_saved_plan (example_env (Inr ([''b''], Some ''sp1'', False, None)) None) (Some ''sp1'') = Inr ''sp1''"
    by (simp add: example_defs)
  have uuid: "uuid4 (example_env (Inr ([''b''], Some ''sp1'', False, None)) None) = ''id1''"
    by (simp add: example_defs)
  note saved = deprecated_route_ignores_next [THEN conjunct2, THEN conjunct2, THEN conjunct2, rule_format,
      OF stateful graph url post json posted loaded query plan suspended encoded]
  from stateful graph url post json posted loaded query plan suspended encoded
    saved [THEN conjunct1] saved [THEN conjunct2, THEN conjunct1] uuid
  show ?thesis
    by (intro conjI)
qed

subsection \<open>The gRPC transport\<close>


text \<open>
  C9. For every request and every context, the gRPC method \<open>Query\<close> sets the status code
  \<open>UNIMPLEMENTED\<close> on the context and raises \<open>NotImplementedError\<close>; it never returns a
  response, so no query is executed through this transport.
\<close>

theorem Query_unimplemented:
  "fst (Query request ctx) = Inl (NotImplementedError ''Method not implemented!'')
   \<and> code (snd (Query request ctx)) = UNIMPLEMENTED
   \<and> details (snd (Query request ctx)) = ''Method not implemented!''
   \<and> (\<nexists>r. fst (Query request ctx) = Inr r)"
  by (simp add: Query_def)

end
